theory Spec2Isabelle
  imports Complex_Main
begin

section \<open>Dates and times\<close>

text \<open>
  A Python \<^verbatim>\<open>datetime\<close> is held as the whole number of microseconds since the
  epoch (the resolution of the type); a \<^verbatim>\<open>timedelta\<close> is a whole number of
  microseconds. The scripts use naive local datetimes throughout and convert with
  \<^verbatim>\<open>fromtimestamp\<close> and \<^verbatim>\<open>timestamp()\<close> of the same zone; the local
  offset is taken as zero.
\<close>

type_synonym datetime = int
type_synonym timedelta = int

definition timedelta_days :: "int \<Rightarrow> timedelta" where
  \<comment> \<open>\<^verbatim>\<open>timedelta(days=d)\<close>\<close>
  "timedelta_days d = d * 86400000000"

definition days :: "timedelta \<Rightarrow> int" where
  \<comment> \<open>the \<^verbatim>\<open>.days\<close> attribute: timedeltas are normalised with a floored day count\<close>
  "days td = td div 86400000000"

definition fromtimestamp :: "int \<Rightarrow> datetime" where
  \<comment> \<open>\<^verbatim>\<open>datetime.fromtimestamp(created_utc)\<close>, \<^verbatim>\<open>created_utc\<close> in whole epoch seconds\<close>
  "fromtimestamp ts = ts * 1000000"

definition int_timestamp :: "datetime \<Rightarrow> int" where
  \<comment> \<open>\<^verbatim>\<open>int(d.timestamp())\<close>: \<^verbatim>\<open>int\<close> truncates towards zero\<close>
  "int_timestamp d = (if 0 \<le> d then d div 1000000 else - ((- d) div 1000000))"

definition date :: "datetime \<Rightarrow> int" where
  \<comment> \<open>\<^verbatim>\<open>d.date()\<close> and \<^verbatim>\<open>d.strftime('%Y%m%d')\<close>: the calendar day, held as its
      day number since the epoch (the text form is an injective rendering of it)\<close>
  "date d = d div 86400000000"

section \<open>The window generator\<close>

text \<open>
  \<^verbatim>\<open>get_date_range\<close> of \<^verbatim>\<open>scripts/historic_reddit_data_pull.py\<close>: a generator
  whose \<^verbatim>\<open>while\<close> loop yields \<^verbatim>\<open>(current_date, next_date)\<close>; the list is the
  sequence of yielded pairs.
\<close>

function get_date_range :: "datetime \<Rightarrow> datetime \<Rightarrow> (datetime \<times> datetime) list" where
  "get_date_range current_date end_date =
     (if current_date < end_date
      then (let next_date = current_date + timedelta_days 1
            in (current_date, next_date) # get_date_range next_date end_date)
      else [])"
  by pat_completeness auto
termination
  by (relation "measure (\<lambda>(current_date, end_date). nat (end_date - current_date))")
     (auto simp: timedelta_days_def)

declare get_date_range.simps [simp del]

section \<open>Posts, stories and exceptions\<close>

text \<open>
  A \<^verbatim>\<open>praw\<close> submission, with the attributes the scripts read. \<^verbatim>\<open>author\<close> is
  \<^verbatim>\<open>None\<close> for a deleted account, \<^verbatim>\<open>removed_by_category\<close> is \<^verbatim>\<open>None\<close> or the
  name of who removed the post, \<^verbatim>\<open>created_utc\<close> is in whole epoch seconds.
\<close>

record submission =
  id_of :: string
  title :: string
  selftext :: string
  author :: "string option"
  score :: int
  created_utc :: int
  url :: string
  num_comments :: int
  upvote_ratio :: real
  removed_by_category :: "string option"

text \<open>The dictionary built for a kept post; each field is the key of the same name.\<close>

record story =
  story_title :: string
  story_text :: string
  story_author :: string
  story_score :: int
  story_created_utc :: datetime
  story_url :: string
  story_id :: string
  story_num_comments :: int
  story_upvote_ratio :: real

definition truthy :: "string option \<Rightarrow> bool" where
  \<comment> \<open>Python truth value of an attribute that is \<^verbatim>\<open>None\<close> or a string\<close>
  "truthy v = (case v of None \<Rightarrow> False | Some s \<Rightarrow> s \<noteq> [])"

definition str_author :: "string option \<Rightarrow> string" where
  \<comment> \<open>\<^verbatim>\<open>str(submission.author)\<close>\<close>
  "str_author a = (case a of None \<Rightarrow> ''None'' | Some name \<Rightarrow> name)"

definition make_story :: "submission \<Rightarrow> story" where
  "make_story submission =
     \<lparr>story_title = title submission,
      story_text = selftext submission,
      story_author = str_author (author submission),
      story_score = score submission,
      story_created_utc = fromtimestamp (created_utc submission),
      story_url = url submission,
      story_id = id_of submission,
      story_num_comments = num_comments submission,
      story_upvote_ratio = upvote_ratio submission\<rparr>"

text \<open>
  Exceptions are values: a class and the text \<^verbatim>\<open>str(e)\<close>. Every class below is a
  subclass of Python's \<^verbatim>\<open>Exception\<close>, so every handler of the scripts
  (\<^verbatim>\<open>except Exception\<close>) catches all of them alike. \<open>SourceAuthError\<close> stands for the
  client's credential failures, \<open>SourceUnavailableError\<close> for its network and quota
  failures, \<open>NotFound\<close> for a missing post, \<open>ClientError\<close> for the storage client's.
  \<open>InvalidRangeError\<close> is the error the specification names for a bad range; no function
  of the repository raises it.
\<close>

datatype exn_class =
    KeyError | TypeError | InvalidRangeError | SourceAuthError | SourceUnavailableError
  | NotFound | ClientError | OtherException

datatype exn = Exn exn_class string

fun str_exn :: "exn \<Rightarrow> string" where
  "str_exn (Exn c msg) = msg"

section \<open>The outside world and the effects of a run\<close>

datatype s3_key = S3_key string string int
  \<comment> \<open>bucket, and the path \<^verbatim>\<open>reddit_data/{subreddit_name}/{date_str}.json\<close>\<close>

datatype message =
    Starting_download string
  | Date_range int int
  | Target_bucket string
  | Processing_date int
  | Using_reddit_api
  | Found_post string
  | Using_pushshift
  | Found_in_pushshift nat
  | Error_processing_submission string exn
  | Found_stories nat int
  | No_stories_found int
  | Error_processing_date int exn
  | Preparing_upload int nat
  | Attempting_upload s3_key
  | Uploaded s3_key
  | Upload_might_have_failed int
  | Error_uploading exn
  | Fetching_data string datetime datetime
  | Error_fetching exn
  | No_stories_to_upload int
  | Uploaded_stories nat s3_key

datatype request =
    Subreddit_new string nat
  | Search_submissions string int int
  | Submission_fetch string
  | Put_object s3_key "story list"
  | Load_string s3_key "story list"

datatype event = Print message | Call request | Sleep nat
  \<comment> \<open>a printed line, a request sent to a service, a pause in milliseconds\<close>

text \<open>
  What the services answer. A call is told apart by the start of the window it is made
  for, so answers may change from one window to the next.
  \<^item> \<open>now w start\<close>: the clock read by \<^verbatim>\<open>datetime.now()\<close>;
  \<^item> \<open>subreddit_new w name start\<close>: the posts the listing yields, newest first, and the
    exception that ends the iteration, if any;
  \<^item> \<open>search_submissions w name after before\<close>: the identifiers the archive returns;
  \<^item> \<open>submission_fetch w start id\<close>: the post behind an identifier, fetched when its
    first attribute is read;
  \<^item> \<open>boto3_client w\<close>, \<open>put_object w key\<close>, \<open>load_string w key\<close>: the storage client,
    with the HTTP status of a write that returns.
\<close>

record world =
  environ :: "string \<Rightarrow> string option"
  variable :: "string \<Rightarrow> string option"
  now :: "datetime \<Rightarrow> datetime"
  subreddit_new :: "string \<Rightarrow> datetime \<Rightarrow> submission list \<times> exn option"
  search_submissions :: "string \<Rightarrow> int \<Rightarrow> int \<Rightarrow> exn + string list"
  submission_fetch :: "datetime \<Rightarrow> string \<Rightarrow> exn + submission"
  boto3_client :: "exn option"
  put_object :: "s3_key \<Rightarrow> exn + int"
  load_string :: "s3_key \<Rightarrow> exn option"

record state =
  s3 :: "s3_key \<Rightarrow> story list option"
  trace :: "event list"

definition emit :: "state \<Rightarrow> event list \<Rightarrow> state" where
  "emit st evs = st\<lparr>trace := trace st @ evs\<rparr>"

definition store :: "state \<Rightarrow> s3_key \<Rightarrow> story list \<Rightarrow> state" where
  "store st key body = st\<lparr>s3 := (s3 st)(key \<mapsto> body)\<rparr>"

section \<open>\<^verbatim>\<open>scripts/historic_reddit_data_pull.py\<close>\<close>

record reddit_client =
  client_id :: string
  client_secret :: string
  user_agent :: string

definition initialize_reddit :: "world \<Rightarrow> exn + reddit_client" where
  \<comment> \<open>\<^verbatim>\<open>os.environ[...]\<close> raises \<^verbatim>\<open>KeyError\<close> on a missing name; building the client
      sends no request\<close>
  "initialize_reddit w =
     (case environ w ''reddit_id'' of
        None \<Rightarrow> Inl (Exn KeyError ''reddit_id'')
      | Some cid \<Rightarrow>
          (case environ w ''secret_key'' of
             None \<Rightarrow> Inl (Exn KeyError ''secret_key'')
           | Some sec \<Rightarrow>
               (case environ w ''user_agent'' of
                  None \<Rightarrow> Inl (Exn KeyError ''user_agent'')
                | Some ua \<Rightarrow> Inr \<lparr>client_id = cid, client_secret = sec, user_agent = ua\<rparr>)))"

definition upload_to_s3 ::
  "world \<Rightarrow> story list \<Rightarrow> string \<Rightarrow> string \<Rightarrow> int \<Rightarrow> state \<Rightarrow> exn option \<times> state" where
  \<comment> \<open>\<^verbatim>\<open>initialize_s3()\<close> is outside the function's \<^verbatim>\<open>try\<close>; what \<^verbatim>\<open>put_object\<close>
      raises is caught and printed. The body is the list of records the JSON text
      renders.\<close>
  "upload_to_s3 w df bucket_name subreddit_name date_str st =
     (case boto3_client w of
        Some e \<Rightarrow> (Some e, st)
      | None \<Rightarrow>
          (let s3_path = S3_key bucket_name subreddit_name date_str;
               st1 = emit st [Print (Preparing_upload date_str (length df)),
                              Print (Attempting_upload s3_path),
                              Call (Put_object s3_path df)]
           in (None,
               (case put_object w s3_path of
                  Inl e \<Rightarrow> emit st1 [Print (Error_uploading e)]
                | Inr status \<Rightarrow>
                    if status = 200
                    then emit (store st1 s3_path df) [Print (Uploaded s3_path)]
                    else emit st1 [Print (Upload_might_have_failed status)]))))"

definition new_listing :: "world \<Rightarrow> string \<Rightarrow> datetime \<Rightarrow> nat \<Rightarrow> submission list \<times> exn option" where
  \<comment> \<open>\<^verbatim>\<open>subreddit.new(limit=n)\<close>: iteration stops after \<open>n\<close> posts\<close>
  "new_listing w name start limit =
     (case subreddit_new w name start of
        (items, err) \<Rightarrow> if limit \<le> length items then (take limit items, None) else (items, err))"

fun live_loop :: "datetime \<Rightarrow> datetime \<Rightarrow> submission list \<Rightarrow> story list \<times> event list" where
  "live_loop start end' [] = ([], [])"
| "live_loop start end' (submission # rest) =
     (let submission_time = fromtimestamp (created_utc submission);
          (stories, out) = live_loop start end' rest
      in if start \<le> submission_time \<and> submission_time < end'
         then if \<not> truthy (removed_by_category submission) \<and> selftext submission \<noteq> []
              then (make_story submission # stories,
                    Print (Found_post (take 50 (title submission))) # Sleep 500 # out)
              else (stories, Sleep 500 # out)
         else (stories, Sleep 500 # out))"

definition live_pass ::
  "world \<Rightarrow> string \<Rightarrow> datetime \<Rightarrow> datetime \<Rightarrow> (exn + story list) \<times> event list" where
  \<comment> \<open>the loop over \<^verbatim>\<open>subreddit.new(limit=1000)\<close>; an exception of the listing leaves
      the window's \<^verbatim>\<open>try\<close> block\<close>
  "live_pass w subreddit_name start end' =
     (case new_listing w subreddit_name start 1000 of
        (items, err) \<Rightarrow>
          (let (stories, out) = live_loop start end' items;
               evs = Print Using_reddit_api # Call (Subreddit_new subreddit_name 1000) # out
           in case err of None \<Rightarrow> (Inr stories, evs) | Some e \<Rightarrow> (Inl e, evs)))"

fun archive_loop :: "world \<Rightarrow> datetime \<Rightarrow> string list \<Rightarrow> story list \<times> event list" where
  "archive_loop w start [] = ([], [])"
| "archive_loop w start (submission_id # rest) =
     (let (stories, out) = archive_loop w start rest
      in case submission_fetch w start submission_id of
           Inl e \<Rightarrow>
             (stories,
              Call (Submission_fetch submission_id)
                # Print (Error_processing_submission submission_id e) # out)
         | Inr submission \<Rightarrow>
             if \<not> truthy (removed_by_category submission) \<and> selftext submission \<noteq> []
             then (make_story submission # stories,
                   Call (Submission_fetch submission_id)
                     # Print (Found_post (take 50 (title submission))) # Sleep 500 # out)
             else (stories, Call (Submission_fetch submission_id) # Sleep 500 # out))"

definition archive_pass ::
  "world \<Rightarrow> string \<Rightarrow> datetime \<Rightarrow> datetime \<Rightarrow> (exn + story list) \<times> event list" where
  "archive_pass w subreddit_name start end' =
     (let start_timestamp = int_timestamp start;
          end_timestamp = int_timestamp end';
          evs = [Print Using_pushshift,
                 Call (Search_submissions subreddit_name start_timestamp end_timestamp)]
      in case search_submissions w subreddit_name start_timestamp end_timestamp of
           Inl e \<Rightarrow> (Inl e, evs)
         | Inr submission_ids \<Rightarrow>
             (let (stories, out) = archive_loop w start submission_ids
              in (Inr stories,
                  evs @ Print (Found_in_pushshift (length submission_ids)) # out)))"

definition collect_stories ::
  "world \<Rightarrow> string \<Rightarrow> datetime \<Rightarrow> datetime \<Rightarrow> (exn + story list) \<times> event list" where
  \<comment> \<open>the two \<^verbatim>\<open>if\<close> statements that fill \<^verbatim>\<open>stories\<close> inside the window's
      \<^verbatim>\<open>try\<close>: the listing when the window is recent, the archive when \<^verbatim>\<open>stories\<close>
      is still empty\<close>
  "collect_stories w subreddit_name start end' =
     (case (if days (now w start - start) < 90
            then live_pass w subreddit_name start end'
            else (Inr [], [])) of
        (Inl e, out1) \<Rightarrow> (Inl e, out1)
      | (Inr stories, out1) \<Rightarrow>
          if stories = []
          then (case archive_pass w subreddit_name start end' of
                  (res, out2) \<Rightarrow> (res, out1 @ out2))
          else (Inr stories, out1))"

fun process_window ::
  "world \<Rightarrow> string \<Rightarrow> string \<Rightarrow> datetime \<times> datetime \<Rightarrow> state \<Rightarrow> state" where
  \<comment> \<open>one turn of the loop over the windows: the \<^verbatim>\<open>try\<close> block and its handler\<close>
  "process_window w subreddit_name bucket_name (start, end') st =
     (case collect_stories w subreddit_name start end' of
        (res, out) \<Rightarrow>
          (let st1 = emit st (Print (Processing_date (date start)) # out)
           in case res of
                Inl e \<Rightarrow> emit st1 [Print (Error_processing_date (date start) e)]
              | Inr stories \<Rightarrow>
                  if stories \<noteq> []
                  then (case upload_to_s3 w stories bucket_name subreddit_name (date start)
                               (emit st1 [Print (Found_stories (length stories) (date start))]) of
                          (Some e, st2) \<Rightarrow>
                            emit st2 [Print (Error_processing_date (date start) e)]
                        | (None, st2) \<Rightarrow> emit st2 [Sleep 2000])
                  else emit st1 [Print (No_stories_found (date start)), Sleep 2000]))"

definition download_subreddit_by_date ::
  "world \<Rightarrow> string \<Rightarrow> string \<Rightarrow> datetime \<Rightarrow> datetime \<Rightarrow> state \<Rightarrow> exn + state" where
  \<comment> \<open>\<open>Inl\<close>: the exception that reaches the caller; \<open>Inr\<close>: the run returned\<close>
  "download_subreddit_by_date w subreddit_name bucket_name start_date end_date st =
     (case initialize_reddit w of
        Inl e \<Rightarrow> Inl e
      | Inr reddit \<Rightarrow>
          Inr (fold (process_window w subreddit_name bucket_name)
                 (get_date_range start_date end_date)
                 (emit st [Print (Starting_download subreddit_name),
                           Print (Date_range (date start_date) (date end_date)),
                           Print (Target_bucket bucket_name)])))"

section \<open>\<^verbatim>\<open>dags/reddit_scraper_dag.py\<close>\<close>

text \<open>
  The task functions of the daily DAG. They read their settings with \<^verbatim>\<open>Variable.get\<close>,
  print nothing inside the loops and do not pause. A story's \<^verbatim>\<open>created_utc\<close> is stored
  as \<^verbatim>\<open>isoformat()\<close> text, an injective rendering of the datetime held here.
\<close>

definition dag_initialize_reddit :: "world \<Rightarrow> exn + reddit_client" where
  "dag_initialize_reddit w =
     (case variable w ''reddit_id'' of
        None \<Rightarrow> Inl (Exn KeyError ''reddit_id'')
      | Some cid \<Rightarrow>
          (case variable w ''reddit_secret_key'' of
             None \<Rightarrow> Inl (Exn KeyError ''reddit_secret_key'')
           | Some sec \<Rightarrow>
               (case variable w ''reddit_user_agent'' of
                  None \<Rightarrow> Inl (Exn KeyError ''reddit_user_agent'')
                | Some ua \<Rightarrow> Inr \<lparr>client_id = cid, client_secret = sec, user_agent = ua\<rparr>)))"

fun dag_live_loop :: "datetime \<Rightarrow> datetime \<Rightarrow> submission list \<Rightarrow> story list" where
  "dag_live_loop start_date end_date [] = []"
| "dag_live_loop start_date end_date (submission # rest) =
     (let submission_time = fromtimestamp (created_utc submission);
          stories = dag_live_loop start_date end_date rest
      in if start_date \<le> submission_time \<and> submission_time < end_date
         then if \<not> truthy (removed_by_category submission) \<and> selftext submission \<noteq> []
              then make_story submission # stories
              else stories
         else stories)"

fun dag_archive_loop :: "world \<Rightarrow> datetime \<Rightarrow> string list \<Rightarrow> story list \<times> event list" where
  "dag_archive_loop w start_date [] = ([], [])"
| "dag_archive_loop w start_date (submission_id # rest) =
     (let (stories, out) = dag_archive_loop w start_date rest
      in case submission_fetch w start_date submission_id of
           Inl e \<Rightarrow>
             (stories,
              Call (Submission_fetch submission_id)
                # Print (Error_processing_submission submission_id e) # out)
         | Inr reddit_submission \<Rightarrow>
             if \<not> truthy (removed_by_category reddit_submission)
                \<and> selftext reddit_submission \<noteq> []
             then (make_story reddit_submission # stories,
                   Call (Submission_fetch submission_id) # out)
             else (stories, Call (Submission_fetch submission_id) # out))"

definition dag_live_pass ::
  "world \<Rightarrow> string \<Rightarrow> datetime \<Rightarrow> datetime \<Rightarrow> (exn + story list) \<times> event list" where
  "dag_live_pass w subreddit_name start_date end_date =
     (case new_listing w subreddit_name start_date 1000 of
        (items, err) \<Rightarrow>
          ((case err of
              None \<Rightarrow> Inr (dag_live_loop start_date end_date items)
            | Some e \<Rightarrow> Inl e),
           [Call (Subreddit_new subreddit_name 1000)]))"

definition dag_archive_pass ::
  "world \<Rightarrow> string \<Rightarrow> datetime \<Rightarrow> datetime \<Rightarrow> (exn + story list) \<times> event list" where
  "dag_archive_pass w subreddit_name start_date end_date =
     (let start_timestamp = int_timestamp start_date;
          end_timestamp = int_timestamp end_date;
          evs = [Call (Search_submissions subreddit_name start_timestamp end_timestamp)]
      in case search_submissions w subreddit_name start_timestamp end_timestamp of
           Inl e \<Rightarrow> (Inl e, evs)
         | Inr submission_ids \<Rightarrow>
             (case dag_archive_loop w start_date submission_ids of
                (stories, out) \<Rightarrow> (Inr stories, evs @ out)))"

definition dag_try ::
  "world \<Rightarrow> string \<Rightarrow> datetime \<Rightarrow> datetime \<Rightarrow> (exn + story list) \<times> event list" where
  \<comment> \<open>the body of the \<^verbatim>\<open>try\<close> of \<^verbatim>\<open>fetch_reddit_data\<close>\<close>
  "dag_try w subreddit_name start_date end_date =
     (case (if days (now w start_date - start_date) < 90
            then dag_live_pass w subreddit_name start_date end_date
            else (Inr [], [])) of
        (Inl e, out1) \<Rightarrow> (Inl e, out1)
      | (Inr stories, out1) \<Rightarrow>
          if stories = []
          then (case dag_archive_pass w subreddit_name start_date end_date of
                  (res, out2) \<Rightarrow> (res, out1 @ out2))
          else (Inr stories, out1))"

definition fetch_reddit_data ::
  "world \<Rightarrow> string \<Rightarrow> datetime \<Rightarrow> datetime \<Rightarrow> (exn + story list) \<times> event list" where
  \<comment> \<open>the handler prints the exception and raises it again\<close>
  "fetch_reddit_data w subreddit_name start_date end_date =
     (case dag_initialize_reddit w of
        Inl e \<Rightarrow> (Inl e, [])
      | Inr reddit \<Rightarrow>
          (case dag_try w subreddit_name start_date end_date of
             (Inl e, out) \<Rightarrow>
               (Inl e,
                Print (Fetching_data subreddit_name start_date end_date) # out
                  @ [Print (Error_fetching e)])
           | (Inr stories, out) \<Rightarrow>
               (Inr stories, Print (Fetching_data subreddit_name start_date end_date) # out)))"

definition dag_upload_to_s3 ::
  "world \<Rightarrow> story list \<Rightarrow> string \<Rightarrow> int \<Rightarrow> state \<Rightarrow> exn option \<times> state" where
  \<comment> \<open>\<^verbatim>\<open>upload_to_s3\<close> of the DAG: nothing here is caught\<close>
  "dag_upload_to_s3 w stories subreddit_name date_str st =
     (if stories = [] then (None, emit st [Print (No_stories_to_upload date_str)])
      else (case variable w ''s3_bucket_name'' of
              None \<Rightarrow> (Some (Exn KeyError ''s3_bucket_name''), st)
            | Some bucket_name \<Rightarrow>
                (let s3_key = S3_key bucket_name subreddit_name date_str;
                     st1 = emit st [Call (Load_string s3_key stories)]
                 in case load_string w s3_key of
                      Some e \<Rightarrow> (Some e, st1)
                    | None \<Rightarrow>
                        (None,
                         emit (store st1 s3_key stories)
                           [Print (Uploaded_stories (length stories) s3_key)]))))"

section \<open>\<^verbatim>\<open>lambda/reddit_pipeline/lambda_function.py\<close>\<close>

text \<open>
  \<^verbatim>\<open>run_pipeline\<close> of the Lambda class. The file leaves out the methods
  \<^verbatim>\<open>fetch_stories\<close> and \<^verbatim>\<open>upload_to_s3\<close>; they are parameters here: what the fetch
  does (raises, or returns \<^verbatim>\<open>None\<close> or a list) and what the upload does with a list
  (raises or returns). Strings hold code points below 256.
\<close>

record response =
  statusCode :: int
  body :: string

datatype log_record = Log_info string | Log_error string

function str_nat :: "nat \<Rightarrow> string" where
  \<comment> \<open>the decimal text of a length, as an f-string renders it\<close>
  "str_nat n =
     (if n < 10 then [char_of (48 + n)] else str_nat (n div 10) @ [char_of (48 + n mod 10)])"
  by pat_completeness auto
termination
  by (relation "measure (\<lambda>n. n)") auto

declare str_nat.simps [simp del]

definition hex_digit :: "nat \<Rightarrow> char" where
  "hex_digit d = (if d < 10 then char_of (48 + d) else char_of (87 + d))"

definition json_escape :: "char \<Rightarrow> string" where
  \<comment> \<open>\<^verbatim>\<open>json.dumps\<close> with \<^verbatim>\<open>ensure_ascii\<close>: the quote, the backslash and every
      character outside space to tilde are escaped\<close>
  "json_escape c =
     (if c = CHR 0x22 then [CHR 0x5C, CHR 0x22]
      else if c = CHR 0x5C then [CHR 0x5C, CHR 0x5C]
      else if c = CHR 0x0A then [CHR 0x5C, CHR ''n'']
      else if c = CHR 0x0D then [CHR 0x5C, CHR ''r'']
      else if c = CHR 0x09 then [CHR 0x5C, CHR ''t'']
      else if c = CHR 0x08 then [CHR 0x5C, CHR ''b'']
      else if c = CHR 0x0C then [CHR 0x5C, CHR ''f'']
      else if (of_char c :: nat) < 32 \<or> 126 < (of_char c :: nat)
      then [CHR 0x5C, CHR ''u'', CHR ''0'', CHR ''0'',
            hex_digit (of_char c div 16), hex_digit (of_char c mod 16)]
      else [c])"

definition json_dumps :: "string \<Rightarrow> string" where
  "json_dumps s = CHR 0x22 # concat (map json_escape s) @ [CHR 0x22]"

definition pipeline_try ::
  "(exn + 'a list option) \<Rightarrow> ('a list \<Rightarrow> exn option) \<Rightarrow> (exn + response) \<times> log_record list" where
  \<comment> \<open>the body of the \<^verbatim>\<open>try\<close>: \<open>Inl\<close> is the exception that leaves it.
      \<^verbatim>\<open>len(None)\<close> raises \<^verbatim>\<open>TypeError\<close>, after the success line is logged.\<close>
  "pipeline_try fetch_stories upload =
     (let logged = [Log_info ''Starting Reddit to S3 pipeline'']
      in case fetch_stories of
           Inl e \<Rightarrow> (Inl e, logged)
         | Inr None \<Rightarrow>
             (Inl (Exn TypeError ''object of type 'NoneType' has no len()''),
              logged @ [Log_info ''Pipeline completed successfully''])
         | Inr (Some stories) \<Rightarrow>
             (case (if stories \<noteq> [] then upload stories else None) of
                Some e \<Rightarrow> (Inl e, logged)
              | None \<Rightarrow>
                  (Inr \<lparr>statusCode = 200,
                        body = json_dumps (''Successfully processed ''
                                             @ str_nat (length stories) @ '' stories'')\<rparr>,
                   logged @ [Log_info ''Pipeline completed successfully''])))"

definition run_pipeline ::
  "(exn + 'a list option) \<Rightarrow> ('a list \<Rightarrow> exn option) \<Rightarrow> (exn + response) \<times> log_record list" where
  \<comment> \<open>\<open>Inl\<close>: an exception that reaches the caller of \<^verbatim>\<open>run_pipeline\<close>\<close>
  "run_pipeline fetch_stories upload =
     (case pipeline_try fetch_stories upload of
        (Inr r, logged) \<Rightarrow> (Inr r, logged)
      | (Inl e, logged) \<Rightarrow>
          (Inr \<lparr>statusCode = 500, body = json_dumps (''Pipeline failed: '' @ str_exn e)\<rparr>,
           logged @ [Log_error (''Pipeline failed: '' @ str_exn e)]))"

section \<open>Reading a trace\<close>

fun is_query :: "event \<Rightarrow> bool" where
  "is_query (Call (Subreddit_new name limit)) = True"
| "is_query (Call (Search_submissions name after before)) = True"
| "is_query ev = False"

definition source_queries :: "event list \<Rightarrow> event list" where
  \<comment> \<open>the requests to the listing and to the archive search, in the order sent\<close>
  "source_queries evs = filter is_query evs"

fun put_of :: "event \<Rightarrow> (s3_key \<times> story list) list" where
  "put_of (Call (Put_object key df)) = [(key, df)]"
| "put_of ev = []"

definition batches :: "event list \<Rightarrow> (s3_key \<times> story list) list" where
  \<comment> \<open>the batches handed to the store: key and records of every \<^verbatim>\<open>put_object\<close>\<close>
  "batches evs = concat (map put_of evs)"

fun is_window_error :: "event \<Rightarrow> bool" where
  "is_window_error (Print (Error_processing_date d e)) = True"
| "is_window_error ev = False"

definition window_errors :: "event list \<Rightarrow> event list" where
  \<comment> \<open>the lines the handler of a window prints\<close>
  "window_errors evs = filter is_window_error evs"

fun processing_of :: "event \<Rightarrow> int list" where
  "processing_of (Print (Processing_date d)) = [d]"
| "processing_of ev = []"

definition processed_dates :: "event list \<Rightarrow> int list" where
  \<comment> \<open>the days whose processing was started, in order\<close>
  "processed_dates evs = concat (map processing_of evs)"

fun submission_error_of :: "event \<Rightarrow> (string \<times> exn) list" where
  "submission_error_of (Print (Error_processing_submission submission_id e)) = [(submission_id, e)]"
| "submission_error_of ev = []"

definition submission_errors :: "event list \<Rightarrow> (string \<times> exn) list" where
  \<comment> \<open>the identifiers reported as failed, with the exception printed\<close>
  "submission_errors evs = concat (map submission_error_of evs)"

definition kept :: "submission \<Rightarrow> bool" where
  \<comment> \<open>the test both paths apply: not removed, and a body that is not empty\<close>
  "kept submission = (\<not> truthy (removed_by_category submission) \<and> selftext submission \<noteq> [])"

definition in_window :: "datetime \<Rightarrow> datetime \<Rightarrow> datetime \<Rightarrow> bool" where
  "in_window start end' t = (start \<le> t \<and> t < end')"

fun fetched :: "world \<Rightarrow> datetime \<Rightarrow> string list \<Rightarrow> submission list" where
  \<comment> \<open>the posts whose detail lookup succeeds, in the order of the identifiers\<close>
  "fetched w start [] = []"
| "fetched w start (submission_id # rest) =
     (case submission_fetch w start submission_id of
        Inl e \<Rightarrow> fetched w start rest
      | Inr submission \<Rightarrow> submission # fetched w start rest)"

fun failures :: "world \<Rightarrow> datetime \<Rightarrow> string list \<Rightarrow> (string \<times> exn) list" where
  \<comment> \<open>the identifiers whose detail lookup raises, with the exception\<close>
  "failures w start [] = []"
| "failures w start (submission_id # rest) =
     (case submission_fetch w start submission_id of
        Inl e \<Rightarrow> (submission_id, e) # failures w start rest
      | Inr submission \<Rightarrow> failures w start rest)"


definition window_trace :: "world \<Rightarrow> string \<Rightarrow> string \<Rightarrow> datetime \<times> datetime \<Rightarrow> event list" where
  \<comment> \<open>the events one turn of the window loop adds\<close>
  "window_trace w subreddit_name bucket_name win =
     trace (process_window w subreddit_name bucket_name win \<lparr>s3 = Map.empty, trace = []\<rparr>)"

section \<open>Sample inputs\<close>

definition post_a :: submission where
  "post_a =
     \<lparr>id_of = ''a'', title = ''First'', selftext = ''Body'', author = Some ''alice'',
      score = 1, created_utc = 86400, url = ''https://redd.it/a'', num_comments = 0,
      upvote_ratio = 1, removed_by_category = None\<rparr>"

definition post_b :: submission where
  "post_b =
     \<lparr>id_of = ''b'', title = ''Second'', selftext = ''Text'', author = None,
      score = 2, created_utc = 86500, url = ''https://redd.it/b'', num_comments = 3,
      upvote_ratio = 1, removed_by_category = None\<rparr>"

definition quiet_world :: world where
  \<comment> \<open>every setting present, an empty community, a store that accepts every write\<close>
  "quiet_world =
     \<lparr>environ = (\<lambda>name. Some ''x''),
      variable = (\<lambda>name. Some ''x''),
      now = (\<lambda>start. start + 86400000000),
      subreddit_new = (\<lambda>name start. ([], None)),
      search_submissions = (\<lambda>name after before. Inr []),
      submission_fetch = (\<lambda>start submission_id. Inl (Exn NotFound ''404'')),
      boto3_client = None,
      put_object = (\<lambda>key. Inr 200),
      load_string = (\<lambda>key. None)\<rparr>"

definition one_post_world :: world where
  \<comment> \<open>one post, created at second 86400; the listing shows it, the archive returns it
      for every range \<open>after \<le> 86400 < before\<close>\<close>
  "one_post_world =
     quiet_world
       \<lparr>subreddit_new := (\<lambda>name start. ([post_a], None)),
        search_submissions :=
          (\<lambda>name after before. if after \<le> 86400 \<and> 86400 < before then Inr [''a''] else Inr []),
        submission_fetch :=
          (\<lambda>start submission_id.
             if submission_id = ''a'' then Inr post_a else Inl (Exn NotFound ''404''))\<rparr>"

definition old_world :: world where
  \<comment> \<open>the same post seen 100 days later, with a second identifier that is gone\<close>
  "old_world =
     one_post_world
       \<lparr>now := (\<lambda>start. start + 8640000000000),
        search_submissions :=
          (\<lambda>name after before.
             if after \<le> 86400 \<and> 86400 < before then Inr [''gone'', ''a''] else Inr [])\<rparr>"

definition locked_out_world :: world where
  \<comment> \<open>the listing refuses the credentials on every call\<close>
  "locked_out_world =
     quiet_world
       \<lparr>subreddit_new := (\<lambda>name start. ([], Some (Exn SourceAuthError ''received 401 HTTP response'')))\<rparr>"

definition empty_state :: state where
  "empty_state = \<lparr>s3 = Map.empty, trace = []\<rparr>"

section \<open>Facts about traces and loops\<close>

lemma source_queries_simps [simp]:
  "source_queries [] = []"
  "source_queries (ev # evs) = (if is_query ev then ev # source_queries evs else source_queries evs)"
  "source_queries (evs @ evs') = source_queries evs @ source_queries evs'"
  by (simp_all add: source_queries_def)

lemma batches_simps [simp]:
  "batches [] = []"
  "batches (ev # evs) = put_of ev @ batches evs"
  "batches (evs @ evs') = batches evs @ batches evs'"
  by (simp_all add: batches_def)

lemma window_errors_simps [simp]:
  "window_errors [] = []"
  "window_errors (ev # evs) = (if is_window_error ev then ev # window_errors evs else window_errors evs)"
  "window_errors (evs @ evs') = window_errors evs @ window_errors evs'"
  by (simp_all add: window_errors_def)

lemma processed_dates_simps [simp]:
  "processed_dates [] = []"
  "processed_dates (ev # evs) = processing_of ev @ processed_dates evs"
  "processed_dates (evs @ evs') = processed_dates evs @ processed_dates evs'"
  by (simp_all add: processed_dates_def)

lemma submission_errors_simps [simp]:
  "submission_errors [] = []"
  "submission_errors (ev # evs) = submission_error_of ev @ submission_errors evs"
  "submission_errors (evs @ evs') = submission_errors evs @ submission_errors evs'"
  by (simp_all add: submission_errors_def)


lemma live_loop_stories:
  "fst (live_loop start end' items) =
     map make_story
       (filter (\<lambda>x. in_window start end' (fromtimestamp (created_utc x)) \<and> kept x) items)"
  by (induction items) (auto simp: Let_def in_window_def kept_def split: prod.splits)


lemma live_loop_batches: "batches (snd (live_loop start end' items)) = []"
  by (induction items) (auto simp: Let_def split: prod.splits)

lemma live_loop_window_errors: "window_errors (snd (live_loop start end' items)) = []"
  by (induction items) (auto simp: Let_def split: prod.splits)

lemma live_loop_processing: "processed_dates (snd (live_loop start end' items)) = []"
  by (induction items) (auto simp: Let_def split: prod.splits)

lemma archive_loop_stories:
  "fst (archive_loop w start ids) = map make_story (filter kept (fetched w start ids))"
  by (induction ids) (auto simp: Let_def kept_def split: prod.splits sum.splits)


lemma archive_loop_batches: "batches (snd (archive_loop w start ids)) = []"
  by (induction ids) (auto simp: Let_def split: prod.splits sum.splits)

lemma archive_loop_window_errors:
  "window_errors (snd (archive_loop w start ids)) = []"
  by (induction ids) (auto simp: Let_def split: prod.splits sum.splits)

lemma archive_loop_processing:
  "processed_dates (snd (archive_loop w start ids)) = []"
  by (induction ids) (auto simp: Let_def split: prod.splits sum.splits)

lemma archive_loop_failures:
  "submission_errors (snd (archive_loop w start ids)) = failures w start ids"
  by (induction ids) (auto simp: Let_def split: prod.splits sum.splits)

lemma live_pass_unfold:
  "live_pass w n start end' =
     ((case snd (new_listing w n start 1000) of
         None \<Rightarrow> Inr (fst (live_loop start end' (fst (new_listing w n start 1000))))
       | Some e \<Rightarrow> Inl e),
      Print Using_reddit_api # Call (Subreddit_new n 1000)
        # snd (live_loop start end' (fst (new_listing w n start 1000))))"
  by (simp add: live_pass_def Let_def case_prod_beta split: option.splits)

lemma archive_pass_unfold:
  "archive_pass w n start end' =
     (case search_submissions w n (int_timestamp start) (int_timestamp end') of
        Inl e \<Rightarrow>
          (Inl e,
           [Print Using_pushshift,
            Call (Search_submissions n (int_timestamp start) (int_timestamp end'))])
      | Inr ids \<Rightarrow>
          (Inr (fst (archive_loop w start ids)),
           [Print Using_pushshift,
            Call (Search_submissions n (int_timestamp start) (int_timestamp end')),
            Print (Found_in_pushshift (length ids))] @ snd (archive_loop w start ids)))"
  by (simp add: archive_pass_def Let_def case_prod_beta split: sum.splits)

lemma live_pass_batches: "batches (snd (live_pass w n start end')) = []"
  using live_loop_batches by (simp add: live_pass_unfold)

lemma live_pass_window_errors: "window_errors (snd (live_pass w n start end')) = []"
  using live_loop_window_errors by (simp add: live_pass_unfold)

lemma live_pass_processing: "processed_dates (snd (live_pass w n start end')) = []"
  using live_loop_processing by (simp add: live_pass_unfold)


lemma archive_pass_batches: "batches (snd (archive_pass w n start end')) = []"
  using archive_loop_batches by (simp add: archive_pass_unfold split: sum.splits)

lemma archive_pass_window_errors:
  "window_errors (snd (archive_pass w n start end')) = []"
  using archive_loop_window_errors by (simp add: archive_pass_unfold split: sum.splits)

lemma archive_pass_processing:
  "processed_dates (snd (archive_pass w n start end')) = []"
  using archive_loop_processing by (simp add: archive_pass_unfold split: sum.splits)


lemma collect_stories_unfold:
  "collect_stories w n start end' =
     (if days (now w start - start) < 90
      then (if fst (live_pass w n start end') = Inr []
            then (fst (archive_pass w n start end'),
                  snd (live_pass w n start end') @ snd (archive_pass w n start end'))
            else live_pass w n start end')
      else archive_pass w n start end')"
  by (cases "live_pass w n start end'"; cases "archive_pass w n start end'")
     (auto simp: collect_stories_def split: sum.splits)

lemma collect_stories_batches: "batches (snd (collect_stories w n start end')) = []"
  by (simp add: collect_stories_unfold live_pass_batches archive_pass_batches)

lemma collect_stories_window_errors:
  "window_errors (snd (collect_stories w n start end')) = []"
  by (simp add: collect_stories_unfold live_pass_window_errors archive_pass_window_errors)

lemma collect_stories_processing:
  "processed_dates (snd (collect_stories w n start end')) = []"
  by (simp add: collect_stories_unfold live_pass_processing archive_pass_processing)

lemma process_window_trace:
  "trace (process_window w n b win st) = trace st @ window_trace w n b win"
proof (cases win)
  case (Pair start end')
  obtain res out where c: "collect_stories w n start end' = (res, out)"
    by (cases "collect_stories w n start end'")
  show ?thesis
    unfolding Pair window_trace_def
    by (cases res)
       (auto simp: c emit_def store_def upload_to_s3_def Let_def split: option.splits sum.splits)
qed

lemma fold_process_window_trace:
  "trace (fold (process_window w n b) wins st) = trace st @ concat (map (window_trace w n b) wins)"
  by (induction wins arbitrary: st) (simp_all add: process_window_trace)

lemma window_trace_batches:
  "batches (window_trace w n b (start, end')) =
     (case fst (collect_stories w n start end') of
        Inl e \<Rightarrow> []
      | Inr stories \<Rightarrow>
          if stories \<noteq> [] \<and> boto3_client w = None
          then [(S3_key b n (date start), stories)] else [])"
proof -
  obtain res out where c: "collect_stories w n start end' = (res, out)"
    by (cases "collect_stories w n start end'")
  have o: "batches out = []"
    using collect_stories_batches [of w n start end'] by (simp add: c)
  show ?thesis
    by (cases res)
       (auto simp: window_trace_def c o emit_def store_def upload_to_s3_def Let_def
             split: option.splits sum.splits)
qed

lemma window_trace_processing:
  "processed_dates (window_trace w n b (start, end')) = [date start]"
proof -
  obtain res out where c: "collect_stories w n start end' = (res, out)"
    by (cases "collect_stories w n start end'")
  have o: "processed_dates out = []"
    using collect_stories_processing [of w n start end'] by (simp add: c)
  show ?thesis
    by (cases res)
       (auto simp: window_trace_def c o emit_def store_def upload_to_s3_def Let_def
             split: option.splits sum.splits)
qed

lemma window_trace_errors:
  "window_errors (window_trace w n b (start, end')) =
     (case fst (collect_stories w n start end') of
        Inl e \<Rightarrow> [Print (Error_processing_date (date start) e)]
      | Inr stories \<Rightarrow>
          if stories \<noteq> []
          then (case boto3_client w of
                  Some e \<Rightarrow> [Print (Error_processing_date (date start) e)]
                | None \<Rightarrow> [])
          else [])"
proof -
  obtain res out where c: "collect_stories w n start end' = (res, out)"
    by (cases "collect_stories w n start end'")
  have o: "window_errors out = []"
    using collect_stories_window_errors [of w n start end'] by (simp add: c)
  show ?thesis
    by (cases res)
       (auto simp: window_trace_def c o emit_def store_def upload_to_s3_def Let_def
             split: option.splits sum.splits)
qed




lemma process_window_s3:
  "s3 (process_window w n b (start, end') st) =
     (case fst (collect_stories w n start end') of
        Inl e \<Rightarrow> s3 st
      | Inr stories \<Rightarrow>
          if stories \<noteq> [] \<and> boto3_client w = None
             \<and> put_object w (S3_key b n (date start)) = Inr 200
          then (s3 st)(S3_key b n (date start) \<mapsto> stories)
          else s3 st)"
proof -
  obtain res out where c: "collect_stories w n start end' = (res, out)"
    by (cases "collect_stories w n start end'")
  show ?thesis
    by (cases res)
       (auto simp: c emit_def store_def upload_to_s3_def Let_def
             split: option.splits sum.splits)
qed




lemma window_trace_no_stories:
  "fst (collect_stories w n start end') = Inr [] \<Longrightarrow>
     window_trace w n b (start, end') =
       Print (Processing_date (date start)) # snd (collect_stories w n start end')
         @ [Print (No_stories_found (date start)), Sleep 2000]"
  by (cases "collect_stories w n start end'") (simp add: window_trace_def emit_def)

section \<open>Which source is asked (C1)\<close>



section \<open>The window generator (C4, C9)\<close>




section \<open>A window without stories (C8)\<close>

text \<open>
  Claim C8. When a window ends with no story, the store is as it was before the window
  and no batch is handed to the store. When the \<^verbatim>\<open>try\<close> block completes with the
  empty list, the window prints that no stories were found and the handler for a failed
  window does not run: the window adds its own lines and nothing else. When the block
  raises, nothing is written either. \<^verbatim>\<open>upload_to_s3\<close> of the DAG, given the empty
  list, prints a line, writes nothing and raises nothing.
\<close>

theorem empty_window_writes_nothing:
  "(fst (collect_stories w name start end') = Inr [] \<longrightarrow>
      s3 (process_window w name bucket (start, end') st) = s3 st
      \<and> batches (window_trace w name bucket (start, end')) = []
      \<and> window_errors (window_trace w name bucket (start, end')) = []
      \<and> window_trace w name bucket (start, end') =
          Print (Processing_date (date start)) # snd (collect_stories w name start end')
            @ [Print (No_stories_found (date start)), Sleep 2000])
   \<and> (\<forall>e. fst (collect_stories w name start end') = Inl e \<longrightarrow>
          s3 (process_window w name bucket (start, end') st) = s3 st
          \<and> batches (window_trace w name bucket (start, end')) = [])
   \<and> dag_upload_to_s3 w [] name date_str st = (None, emit st [Print (No_stories_to_upload date_str)])
   \<and> s3 (snd (dag_upload_to_s3 w [] name date_str st)) = s3 st"
proof -
  have live: "fst (collect_stories w name start end') = Inr [] \<Longrightarrow>
      s3 (process_window w name bucket (start, end') st) = s3 st
      \<and> batches (window_trace w name bucket (start, end')) = []
      \<and> window_errors (window_trace w name bucket (start, end')) = []"
    by (simp add: process_window_s3 window_trace_batches window_trace_errors
          del: process_window.simps)
  have failed: "\<And>e. fst (collect_stories w name start end') = Inl e \<Longrightarrow>
      s3 (process_window w name bucket (start, end') st) = s3 st
      \<and> batches (window_trace w name bucket (start, end')) = []"
    by (simp add: process_window_s3 window_trace_batches del: process_window.simps)
  have dag: "dag_upload_to_s3 w [] name date_str st
      = (None, emit st [Print (No_stories_to_upload date_str)])"
    by (simp add: dag_upload_to_s3_def)
  have dag_s3: "s3 (snd (dag_upload_to_s3 w [] name date_str st)) = s3 st"
    by (simp add: dag emit_def)
  from live failed dag dag_s3 window_trace_no_stories [of w name start end' bucket]
  show ?thesis by blast
qed

text \<open>
  The theorem at a window of an empty community, and at a window whose listing raises.
\<close>

theorem empty_window_writes_nothing_witness:
  "fst (collect_stories quiet_world ''books'' 0 86400000000) = Inr []
   \<and> s3 (process_window quiet_world ''books'' ''bucket'' (0, 86400000000) empty_state) = s3 empty_state
   \<and> batches (window_trace quiet_world ''books'' ''bucket'' (0, 86400000000)) = []
   \<and> window_errors (window_trace quiet_world ''books'' ''bucket'' (0, 86400000000)) = []
   \<and> fst (collect_stories locked_out_world ''books'' 0 86400000000)
        = Inl (Exn SourceAuthError ''received 401 HTTP response'')
   \<and> s3 (process_window locked_out_world ''books'' ''bucket'' (0, 86400000000) empty_state)
        = s3 empty_state"
  using empty_window_writes_nothing [of quiet_world "''books''" 0 86400000000 "''bucket''" empty_state]
    empty_window_writes_nothing [of locked_out_world "''books''" 0 86400000000 "''bucket''" empty_state]
  by (simp add: collect_stories_def live_pass_def archive_pass_def new_listing_def
        quiet_world_def locked_out_world_def days_def int_timestamp_def Let_def
        del: process_window.simps)

section \<open>A range that is empty or reversed (C9)\<close>

text \<open>
  Claim C9, as the code has it. When \<open>overall_start \<ge> overall_end\<close> the generator yields
  no window and raises nothing. The run then prints its three opening lines, sends no
  request, writes nothing and returns; the only exception that can reach the caller is
  the one of \<^verbatim>\<open>initialize_reddit\<close>, which is never an \<open>InvalidRangeError\<close>.
\<close>

theorem empty_range_runs_nothing:
  "overall_end \<le> overall_start \<Longrightarrow>
     get_date_range overall_start overall_end = []
     \<and> download_subreddit_by_date w name bucket overall_start overall_end st =
         (case initialize_reddit w of
            Inl e \<Rightarrow> Inl e
          | Inr reddit \<Rightarrow>
              Inr (emit st [Print (Starting_download name),
                            Print (Date_range (date overall_start) (date overall_end)),
                            Print (Target_bucket bucket)]))
     \<and> download_subreddit_by_date w name bucket overall_start overall_end st
         \<noteq> Inl (Exn InvalidRangeError msg)"
  by (auto simp: get_date_range.simps [of overall_start overall_end]
        download_subreddit_by_date_def initialize_reddit_def split: option.splits sum.splits)

text \<open>The theorem at a reversed range.\<close>

theorem empty_range_runs_nothing_witness:
  "(5::int) \<le> 7
   \<and> get_date_range 7 5 = []
   \<and> download_subreddit_by_date quiet_world ''books'' ''bucket'' 7 5 empty_state =
       Inr (emit empty_state [Print (Starting_download ''books''), Print (Date_range 0 0),
                              Print (Target_bucket ''bucket'')])"
  using empty_range_runs_nothing [of 5 7 quiet_world "''books''" "''bucket''" empty_state]
  by (simp add: initialize_reddit_def quiet_world_def date_def)

text \<open>
  The run over the empty range from 5 to 5 returns, having printed its opening lines:
  it does not fail.
\<close>

theorem empty_range_no_error_counterexample:
  "(5::int) \<ge> 5
   \<and> download_subreddit_by_date quiet_world ''books'' ''bucket'' 5 5 empty_state =
       Inr \<lparr>s3 = Map.empty,
            trace = [Print (Starting_download ''books''), Print (Date_range 0 0),
                     Print (Target_bucket ''bucket'')]\<rparr>"
  by (simp add: download_subreddit_by_date_def get_date_range.simps initialize_reddit_def
        quiet_world_def date_def emit_def empty_state_def)

end
